theory Spec2Isabelle
  imports Complex_Main "HOL-Library.AList"
begin

section \<open>Values, documents and exceptions\<close>

text \<open>
  The service is written in Python on top of FastAPI, a MongoDB driver, passlib and PyJWT.
  A Python dictionary is an association list in its insertion order; assigning a key
  keeps the key's place when it is there already and appends it otherwise, which is
  what \<open>AList.update\<close> does. Strings are lists of code points below 256: an HTTP
  header value reaches the handlers decoded as Latin-1, one character per byte.
  Floats are only stored and handed back (sector percentages, timestamps), so they are
  reals here; \<open>datetime\<close> values are microseconds since the epoch.
\<close>

datatype val =
    VNone
  | VBool bool
  | VInt int
  | VFloat real
  | VStr string
  | VDatetime int
  | VMap "(string \<times> real) list"

type_synonym doc = "(string \<times> val) list"

datatype exn =
    HTTPException nat string
  | IndexError
  | KeyError string
  | ValidationError
  | UnknownHashError
  | TypeError
  | GatewayError string

text \<open>\<open>d.get(k, default)\<close> and \<open>d[k]\<close>.\<close>

definition py_get :: "doc \<Rightarrow> string \<Rightarrow> val \<Rightarrow> val" where
  "py_get d k dflt = (case map_of d k of None \<Rightarrow> dflt | Some v \<Rightarrow> v)"

definition py_item :: "doc \<Rightarrow> string \<Rightarrow> exn + val" where
  "py_item d k = (case map_of d k of None \<Rightarrow> Inl (KeyError k) | Some v \<Rightarrow> Inr v)"

text \<open>\<open>xs[i]\<close> for an index that is not negative.\<close>

definition py_index :: "'a list \<Rightarrow> nat \<Rightarrow> exn + 'a" where
  "py_index xs i = (if i < length xs then Inr (xs ! i) else Inl IndexError)"

text \<open>Sequencing of steps that may raise: the first exception ends the run.\<close>

definition and_then :: "exn + 'a \<Rightarrow> ('a \<Rightarrow> exn + 'b) \<Rightarrow> exn + 'b" where
  "and_then m f = (case m of Inl e \<Rightarrow> Inl e | Inr x \<Rightarrow> f x)"

text \<open>Python's truth value of an object, as \<open>if not x\<close> tests it.\<close>

fun truthy :: "val \<Rightarrow> bool" where
  "truthy VNone = False"
| "truthy (VBool b) = b"
| "truthy (VInt i) = (i \<noteq> 0)"
| "truthy (VFloat x) = (x \<noteq> 0)"
| "truthy (VStr s) = (s \<noteq> [])"
| "truthy (VDatetime t) = True"
| "truthy (VMap m) = (m \<noteq> [])"

text \<open>\<open>x or default\<close> for an optional string: \<open>None\<close> and the empty string give way.\<close>

definition or_else :: "string option \<Rightarrow> string \<Rightarrow> string" where
  "or_else x dflt = (case x of None \<Rightarrow> dflt | Some s \<Rightarrow> if s = [] then dflt else s)"

section \<open>String operations\<close>

text \<open>
  \<open>str.isspace\<close> on the code points below 256: the ASCII controls 9 to 13 and 28 to 31,
  the space, NEL (133) and the no-break space (160).
\<close>

definition py_isspace :: "char \<Rightarrow> bool" where
  "py_isspace c =
     (let n = (of_char c :: nat)
      in (9 \<le> n \<and> n \<le> 13) \<or> (28 \<le> n \<and> n \<le> 32) \<or> n = 133 \<or> n = 160)"

text \<open>
  \<open>str.lower\<close> on the same range: A to Z, and the Latin-1 capitals 192 to 222 but for the
  multiplication sign 215, move up by 32.
\<close>

definition lower_char :: "char \<Rightarrow> char" where
  "lower_char c =
     (let n = (of_char c :: nat)
      in if (65 \<le> n \<and> n \<le> 90) \<or> (192 \<le> n \<and> n \<le> 222 \<and> n \<noteq> 215)
         then char_of (n + 32) else c)"

definition py_lower :: "string \<Rightarrow> string" where
  "py_lower s = map lower_char s"

definition py_startswith :: "string \<Rightarrow> string \<Rightarrow> bool" where
  "py_startswith s p = (take (length p) s = p)"

text \<open>
  \<open>s.split()\<close> with no separator: runs of whitespace separate the words, and leading and
  trailing whitespace gives no empty word. \<open>split_from w s\<close> scans \<open>s\<close> with the word
  \<open>w\<close> collected so far.
\<close>

fun split_from :: "string \<Rightarrow> string \<Rightarrow> string list" where
  "split_from w [] = (if w = [] then [] else [w])"
| "split_from w (c # cs) =
     (if py_isspace c
      then (if w = [] then split_from [] cs else w # split_from [] cs)
      else split_from (w @ [c]) cs)"

definition py_split :: "string \<Rightarrow> string list" where
  "py_split s = split_from [] s"

text \<open>\<open>int(x)\<close> of a float truncates towards zero; \<open>str(i)\<close> of an integer is its decimal
  numeral, with a minus sign when negative.\<close>

definition py_int :: "real \<Rightarrow> int" where
  "py_int x = (if 0 \<le> x then \<lfloor>x\<rfloor> else \<lceil>x\<rceil>)"

definition digit_char :: "nat \<Rightarrow> char" where
  "digit_char d = ''0123456789'' ! d"

fun digits_of :: "nat \<Rightarrow> string" where
  "digits_of n =
     (if n < 10 then [digit_char n] else digits_of (n div 10) @ [digit_char (n mod 10)])"

declare digits_of.simps [simp del]

definition str_int :: "int \<Rightarrow> string" where
  "str_int i = (if i < 0 then CHR ''-'' # digits_of (nat (- i)) else digits_of (nat i))"

definition is_digit :: "char \<Rightarrow> bool" where
  "is_digit c = (c \<in> set ''0123456789'')"

section \<open>The document store (database.py)\<close>

text \<open>
  A collection is the list of its documents in the order the store hands them out, which
  for a collection that is only ever inserted into is the order of insertion: \<open>insert_one\<close>
  puts the new document last. Every stored document carries the ObjectId the store
  gave it (no caller of \<open>create_document\<close> supplies an \<open>_id\<close>), kept beside the fields;
  the fresh id and the clock reading are arguments of the operation that inserts.
  \<open>find(filter)\<close> keeps the documents whose fields equal the filter's values, and
  \<open>limit(n)\<close> keeps the first \<open>n\<close> of them (\<open>limit(0)\<close> is no limit).
\<close>

record stored_doc =
  doc_id :: string
  doc_fields :: doc

type_synonym database = "string \<Rightarrow> stored_doc list"

definition insert_one :: "string \<Rightarrow> doc \<Rightarrow> stored_doc list \<Rightarrow> stored_doc list" where
  "insert_one oid d coll = coll @ [\<lparr>doc_id = oid, doc_fields = d\<rparr>]"

definition create_document ::
  "real \<Rightarrow> string \<Rightarrow> string \<Rightarrow> doc \<Rightarrow> database \<Rightarrow> string \<times> database" where
  "create_document now oid collection_name data db =
     (let d = AList.update ''updated_at'' (VFloat now)
                (AList.update ''created_at'' (VFloat now) data)
      in (oid, db(collection_name := insert_one oid d (db collection_name))))"

definition matches :: "doc \<Rightarrow> stored_doc \<Rightarrow> bool" where
  "matches filter_dict d =
     list_all (\<lambda>kv. map_of (doc_fields d) (fst kv) = Some (snd kv)) filter_dict"

definition cursor_limit :: "nat \<Rightarrow> 'a list \<Rightarrow> 'a list" where
  "cursor_limit n xs = (if n = 0 then xs else take n xs)"

definition get_documents :: "database \<Rightarrow> string \<Rightarrow> doc \<Rightarrow> nat \<Rightarrow> stored_doc list" where
  "get_documents db collection_name filter_dict limit =
     cursor_limit limit (filter (matches filter_dict) (db collection_name))"

section \<open>Schemas (schemas.py)\<close>


record UserLogin =
  login_email :: string
  login_password :: string

record User =
  user_id :: "string option"
  user_email :: string
  user_name :: string
  user_pan :: string

record SaveAllocationRequest =
  sectors :: "(string \<times> real) list"

record Receipt =
  rc_id :: "string option"
  rc_user_email :: string
  rc_amount :: int
  rc_currency :: string
  rc_regime :: string
  rc_allocation :: "(string \<times> real) list"
  rc_payment_method :: string
  rc_reference :: "string option"

record DemoPayRequest =
  dp_amount :: int
  dp_regime :: string
  dp_allocation :: "(string \<times> real) list"

record RazorpayOrderRequest =
  ro_amount :: int
  ro_currency :: string
  ro_receipt :: "string option"
  ro_notes :: "doc option"

record RazorpayOrderResponse =
  rr_id :: string
  rr_amount :: int
  rr_currency :: string
  rr_status :: string

record TokenResponse =
  access_token :: string
  token_type :: string

datatype Message = Message string

text \<open>
  Building a response model from a stored document checks the field types. Documents
  written by this service carry the declared types; a value of another type is a
  validation error here (the coercions pydantic would try on it are left out).
\<close>

definition as_str :: "val \<Rightarrow> exn + string" where
  "as_str v = (case v of VStr s \<Rightarrow> Inr s | _ \<Rightarrow> Inl ValidationError)"

definition as_opt_str :: "val \<Rightarrow> exn + string option" where
  "as_opt_str v =
     (case v of VNone \<Rightarrow> Inr None | VStr s \<Rightarrow> Inr (Some s) | _ \<Rightarrow> Inl ValidationError)"

definition as_int :: "val \<Rightarrow> exn + int" where
  "as_int v = (case v of VInt i \<Rightarrow> Inr i | _ \<Rightarrow> Inl ValidationError)"

definition as_map :: "val \<Rightarrow> exn + (string \<times> real) list" where
  "as_map v = (case v of VMap m \<Rightarrow> Inr m | _ \<Rightarrow> Inl ValidationError)"

section \<open>Libraries\<close>

text \<open>
  passlib's \<open>CryptContext\<close> and PyJWT are not part of the repository: the handlers are
  parametric in them. \<open>pwd_hash\<close> and \<open>pwd_verify\<close> are \<open>pwd_context.hash\<close> and
  \<open>pwd_context.verify\<close>, which may raise; \<open>jwt_encode\<close> and \<open>jwt_decode\<close> are
  \<open>jwt.encode\<close> and \<open>jwt.decode\<close> with the process secret and HS256 fixed.
\<close>

datatype jwt_result = Claims doc | ExpiredSignatureError | InvalidTokenError

record libs =
  pwd_hash :: "string \<Rightarrow> exn + string"
  pwd_verify :: "string \<Rightarrow> val \<Rightarrow> exn + bool"
  jwt_encode :: "doc \<Rightarrow> string"
  jwt_decode :: "string \<Rightarrow> jwt_result"

section \<open>Helpers (main.py)\<close>


definition verify_password :: "libs \<Rightarrow> string \<Rightarrow> val \<Rightarrow> exn + bool" where
  "verify_password L password hashed = pwd_verify L password hashed"

definition timedelta_minutes :: "int \<Rightarrow> int" where
  "timedelta_minutes m = m * 60 * 1000000"

definition default_expires_minutes :: int where
  "default_expires_minutes = 60 * 24"

definition create_token :: "libs \<Rightarrow> int \<Rightarrow> doc \<Rightarrow> int \<Rightarrow> string" where
  "create_token L utcnow data expires_minutes =
     (let expire = utcnow + timedelta_minutes expires_minutes;
          to_encode = AList.update ''exp'' (VDatetime expire) data
      in jwt_encode L to_encode)"

definition decode_token :: "libs \<Rightarrow> string \<Rightarrow> exn + doc" where
  "decode_token L token =
     (case jwt_decode L token of
        Claims payload \<Rightarrow> Inr payload
      | ExpiredSignatureError \<Rightarrow> Inl (HTTPException 401 ''Token expired'')
      | InvalidTokenError \<Rightarrow> Inl (HTTPException 401 ''Invalid token''))"

text \<open>
  The two steps \<open>get_current_user\<close> takes on a header that is present before it looks
  at the token: the prefix test of its first \<open>if\<close>, and \<open>authorization.split()[1]\<close>.
\<close>

definition has_bearer_scheme :: "string \<Rightarrow> bool" where
  "has_bearer_scheme a = py_startswith (py_lower a) ''bearer ''"

definition bearer_token :: "string \<Rightarrow> exn + string" where
  "bearer_token a = py_index (py_split a) 1"

definition make_User :: "stored_doc \<Rightarrow> exn + User" where
  "make_User u =
     and_then (py_item (doc_fields u) ''email'') (\<lambda>em.
     and_then (py_item (doc_fields u) ''name'') (\<lambda>nm.
     and_then (py_item (doc_fields u) ''pan'') (\<lambda>pn.
     and_then (as_str em) (\<lambda>em'.
     and_then (as_str nm) (\<lambda>nm'.
     and_then (as_str pn) (\<lambda>pn'.
       Inr \<lparr>user_id = Some (doc_id u), user_email = em', user_name = nm',
            user_pan = pn'\<rparr>))))))"

definition get_current_user :: "libs \<Rightarrow> database \<Rightarrow> string option \<Rightarrow> exn + User" where
  "get_current_user L db authorization =
     (case authorization of
        None \<Rightarrow> Inl (HTTPException 401 ''Missing token'')
      | Some a \<Rightarrow>
          if a = [] then Inl (HTTPException 401 ''Missing token'')
          else if \<not> has_bearer_scheme a then Inl (HTTPException 401 ''Missing token'')
          else
            and_then (bearer_token a) (\<lambda>token.
            and_then (decode_token L token) (\<lambda>payload.
              let email = py_get payload ''sub'' VNone
              in if \<not> truthy email then Inl (HTTPException 401 ''Invalid token payload'')
                 else (case get_documents db ''user'' [(''email'', email)] 1 of
                         [] \<Rightarrow> Inl (HTTPException 401 ''User not found'')
                       | u # _ \<Rightarrow> make_User u))))"

section \<open>Endpoints (main.py)\<close>


definition login :: "libs \<Rightarrow> int \<Rightarrow> UserLogin \<Rightarrow> database \<Rightarrow> exn + TokenResponse" where
  "login L utcnow payload db =
     (case get_documents db ''user'' [(''email'', VStr (login_email payload))] 1 of
        [] \<Rightarrow> Inl (HTTPException 401 ''Invalid credentials'')
      | user # _ \<Rightarrow>
          (case verify_password L (login_password payload)
                  (py_get (doc_fields user) ''password_hash'' (VStr [])) of
             Inl e \<Rightarrow> Inl e
           | Inr ok \<Rightarrow>
               if \<not> ok then Inl (HTTPException 401 ''Invalid credentials'')
               else (case py_item (doc_fields user) ''email'' of
                       Inl e \<Rightarrow> Inl e
                     | Inr em \<Rightarrow>
                         Inr \<lparr>access_token =
                                create_token L utcnow [(''sub'', em)] default_expires_minutes,
                              token_type = ''bearer''\<rparr>)))"

definition get_allocation :: "User \<Rightarrow> database \<Rightarrow> doc" where
  "get_allocation user db =
     (case get_documents db ''allocation'' [(''user_email'', VStr (user_email user))] 1 of
        [] \<Rightarrow> [(''sectors'', VMap [])]
      | d # _ \<Rightarrow> [(''sectors'', py_get (doc_fields d) ''sectors'' (VMap []))])"

definition save_allocation ::
  "real \<Rightarrow> string \<Rightarrow> SaveAllocationRequest \<Rightarrow> User \<Rightarrow> database \<Rightarrow> Message \<times> database" where
  "save_allocation now oid payload user db =
     (let existing =
            get_documents db ''allocation'' [(''user_email'', VStr (user_email user))] 1;
          d = [(''user_email'', VStr (user_email user)), (''sectors'', VMap (sectors payload))]
      in if existing \<noteq> []
         then (Message ''Allocation saved'', snd (create_document now oid ''allocation'' d db))
         else (Message ''Allocation saved'', snd (create_document now oid ''allocation'' d db)))"

definition make_Receipt :: "stored_doc \<Rightarrow> exn + Receipt" where
  "make_Receipt r =
     and_then (py_item (doc_fields r) ''user_email'') (\<lambda>ue.
     and_then (py_item (doc_fields r) ''amount'') (\<lambda>am.
     and_then (as_str ue) (\<lambda>ue'.
     and_then (as_int am) (\<lambda>am'.
     and_then (as_str (py_get (doc_fields r) ''currency'' (VStr ''INR''))) (\<lambda>cu.
     and_then (as_str (py_get (doc_fields r) ''regime'' (VStr ''new''))) (\<lambda>rg.
     and_then (as_map (py_get (doc_fields r) ''allocation'' (VMap []))) (\<lambda>al.
     and_then (as_str (py_get (doc_fields r) ''payment_method'' (VStr ''demo''))) (\<lambda>pm.
     and_then (as_opt_str (py_get (doc_fields r) ''reference'' VNone)) (\<lambda>rf.
       Inr \<lparr>rc_id = Some (doc_id r), rc_user_email = ue', rc_amount = am',
            rc_currency = cu, rc_regime = rg, rc_allocation = al,
            rc_payment_method = pm, rc_reference = rf\<rparr>)))))))))"

fun receipt_items :: "stored_doc list \<Rightarrow> exn + Receipt list" where
  "receipt_items [] = Inr []"
| "receipt_items (r # rs) =
     and_then (make_Receipt r) (\<lambda>x. and_then (receipt_items rs) (\<lambda>xs. Inr (x # xs)))"

definition list_receipts :: "User \<Rightarrow> database \<Rightarrow> exn + Receipt list" where
  "list_receipts user db =
     receipt_items
       (get_documents db ''receipt'' [(''user_email'', VStr (user_email user))] 100)"

definition pay_demo ::
  "real \<Rightarrow> real \<Rightarrow> string \<Rightarrow> DemoPayRequest \<Rightarrow> User \<Rightarrow> database \<Rightarrow> Receipt \<times> database" where
  "pay_demo now now' oid payload user db =
     (let reference = ''DEMO-'' @ str_int (py_int now);
          rec = [(''user_email'', VStr (user_email user)),
                 (''amount'', VInt (dp_amount payload)),
                 (''currency'', VStr ''INR''),
                 (''regime'', VStr (dp_regime payload)),
                 (''allocation'', VMap (dp_allocation payload)),
                 (''payment_method'', VStr ''demo''),
                 (''reference'', VStr reference)]
      in (\<lparr>rc_id = None, rc_user_email = user_email user, rc_amount = dp_amount payload,
            rc_currency = ''INR'', rc_regime = dp_regime payload,
            rc_allocation = dp_allocation payload, rc_payment_method = ''demo'',
            rc_reference = Some reference\<rparr>,
          snd (create_document now' oid ''receipt'' rec db)))"

text \<open>
  The gateway: \<open>import razorpay\<close> gives the client's \<open>order.create\<close> or fails with a
  message; the call takes the key pair and the order and returns the gateway's
  dictionary or raises.
\<close>

record order_request =
  or_amount :: int
  or_currency :: string
  or_receipt :: string
  or_notes :: doc

type_synonym gateway = "string \<Rightarrow> string \<Rightarrow> order_request \<Rightarrow> exn + doc"

definition make_order_response :: "doc \<Rightarrow> exn + RazorpayOrderResponse" where
  "make_order_response order =
     and_then (py_item order ''id'') (\<lambda>oi.
     and_then (py_item order ''amount'') (\<lambda>am.
     and_then (py_item order ''currency'') (\<lambda>cu.
     and_then (as_str oi) (\<lambda>oi'.
     and_then (as_int am) (\<lambda>am'.
     and_then (as_str cu) (\<lambda>cu'.
     and_then (as_str (py_get order ''status'' (VStr ''created''))) (\<lambda>st.
       Inr \<lparr>rr_id = oi', rr_amount = am', rr_currency = cu', rr_status = st\<rparr>)))))))"

definition keys_configured :: "string option \<Rightarrow> string option \<Rightarrow> (string \<times> string) option" where
  "keys_configured key_id key_secret =
     (case key_id of
        None \<Rightarrow> None
      | Some i \<Rightarrow>
          if i = [] then None
          else (case key_secret of
                  None \<Rightarrow> None
                | Some s \<Rightarrow> if s = [] then None else Some (i, s)))"

definition create_razorpay_order ::
  "(string \<Rightarrow> string option) \<Rightarrow> string + gateway \<Rightarrow> real \<Rightarrow> RazorpayOrderRequest \<Rightarrow> User \<Rightarrow>
     database \<Rightarrow> (exn + RazorpayOrderResponse) \<times> database" where
  "create_razorpay_order environ razorpay now payload user db =
     (case keys_configured (environ ''RAZORPAY_KEY_ID'') (environ ''RAZORPAY_KEY_SECRET'') of
        None \<Rightarrow> (Inl (HTTPException 400 ''Razorpay keys not configured''), db)
      | Some keys \<Rightarrow>
          (case razorpay of
             Inl msg \<Rightarrow> (Inl (HTTPException 500 (''Razorpay import failed: '' @ msg)), db)
           | Inr order_create \<Rightarrow>
               (and_then
                  (order_create (fst keys) (snd keys)
                     \<lparr>or_amount = ro_amount payload,
                      or_currency = ro_currency payload,
                      or_receipt = or_else (ro_receipt payload)
                                     (''rcpt_'' @ str_int (py_int now)),
                      or_notes = (case ro_notes payload of None \<Rightarrow> [] | Some n \<Rightarrow> n)\<rparr>)
                  make_order_response,
                db)))"

section \<open>A concrete instance of the libraries\<close>

text \<open>
  \<open>CryptContext.verify\<close> with the one scheme this service configures, bcrypt, as passlib
  documents it: a hash that is \<open>None\<close> is refused with \<open>False\<close>; a string that starts
  with none of bcrypt's identifiers cannot be identified and raises \<open>UnknownHashError\<close>;
  a value that is no string raises a type error; an identified hash goes to the scheme's
  own check.
\<close>

definition bcrypt_idents :: "string list" where
  "bcrypt_idents = [''$2$'', ''$2a$'', ''$2x$'', ''$2y$'', ''$2b$'']"

definition context_verify ::
  "(string \<Rightarrow> string \<Rightarrow> exn + bool) \<Rightarrow> string \<Rightarrow> val \<Rightarrow> exn + bool" where
  "context_verify scheme_verify secret hash =
     (case hash of
        VNone \<Rightarrow> Inr False
      | VStr h \<Rightarrow>
          if list_ex (py_startswith h) bcrypt_idents then scheme_verify secret h
          else Inl UnknownHashError
      | _ \<Rightarrow> Inl TypeError)"

text \<open>
  For runs on concrete inputs the digest and the signature are replaced by stand-ins that
  keep the shape of the real ones: a hash is bcrypt's identifier followed by the
  password, and a token is a marker followed by its subject.
\<close>

definition plain_libs :: libs where
  "plain_libs =
     \<lparr>pwd_hash = (\<lambda>secret. Inr (''$2b$'' @ secret)),
      pwd_verify = context_verify (\<lambda>secret h. Inr (h = ''$2b$'' @ secret)),
      jwt_encode = (\<lambda>d. ''jwt:'' @ (case map_of d ''sub'' of Some (VStr s) \<Rightarrow> s | _ \<Rightarrow> [])),
      jwt_decode = (\<lambda>t. if py_startswith t ''jwt:'' then Claims [(''sub'', VStr (drop 4 t))]
                         else InvalidTokenError)\<rparr>"

definition empty_db :: database where
  "empty_db = (\<lambda>_. [])"

definition asha :: User where
  "asha = \<lparr>user_id = Some ''u1'', user_email = ''asha@example.com'', user_name = ''Asha'',
            user_pan = ''ABCDE1234F''\<rparr>"

text \<open>A store in which \<open>asha\<close> holds a hundred receipts already.\<close>

definition old_receipt :: "nat \<Rightarrow> stored_doc" where
  "old_receipt i =
     \<lparr>doc_id = ''r'' @ digits_of i,
      doc_fields = [(''user_email'', VStr ''asha@example.com''), (''amount'', VInt 1),
                    (''currency'', VStr ''INR''), (''regime'', VStr ''old''),
                    (''allocation'', VMap []), (''payment_method'', VStr ''demo''),
                    (''reference'', VStr ''DEMO-1'')]\<rparr>"

definition listed_old :: "nat \<Rightarrow> Receipt" where
  "listed_old i =
     \<lparr>rc_id = Some (''r'' @ digits_of i), rc_user_email = ''asha@example.com'', rc_amount = 1,
      rc_currency = ''INR'', rc_regime = ''old'', rc_allocation = [],
      rc_payment_method = ''demo'', rc_reference = Some ''DEMO-1''\<rparr>"

definition full_db :: database where
  "full_db = empty_db(''receipt'' := map old_receipt [0..<100])"

definition demo_payment :: DemoPayRequest where
  "demo_payment = \<lparr>dp_amount = 500, dp_regime = ''new'', dp_allocation = [(''health'', 100)]\<rparr>"


text \<open>The store after that registration alone.\<close>

definition one_user_db :: database where
  "one_user_db =
     empty_db(''user'' :=
       [\<lparr>doc_id = ''u1'',
         doc_fields = [(''email'', VStr ''asha@example.com''),
                       (''password_hash'', VStr ''$2b$s3cret''), (''name'', VStr ''Asha''),
                       (''pan'', VStr ''ABCDE1234F''), (''created_at'', VFloat 1700000000),
                       (''updated_at'', VFloat 1700000000)]\<rparr>])"

text \<open>A listing shows a receipt with the reference \<open>ref\<close>.\<close>

definition listed :: "string \<Rightarrow> exn + Receipt list \<Rightarrow> bool" where
  "listed ref res =
     (case res of Inl e \<Rightarrow> False | Inr items \<Rightarrow> Some ref \<in> set (map rc_reference items))"

text \<open>A gateway that accepts every order.\<close>

definition paying_gateway :: gateway where
  "paying_gateway key_id key_secret req =
     Inr [(''id'', VStr ''order_1''), (''amount'', VInt (or_amount req)),
          (''currency'', VStr (or_currency req)), (''status'', VStr ''created'')]"

section \<open>The authorization header\<close>

lemma lower_Bearer: "map lower_char ''Bearer '' = ''bearer ''"
  by code_simp



lemma scheme_Bearer: "has_bearer_scheme (''Bearer '' @ t)"
  unfolding has_bearer_scheme_def py_startswith_def py_lower_def map_append lower_Bearer
  by simp



lemma split_Bearer: "py_split (''Bearer '' @ t) = ''Bearer'' # py_split t"
  by (simp add: py_split_def py_isspace_def)




lemma token_Bearer: "bearer_token (''Bearer '' @ t) = py_index (py_split t) 0"
  unfolding bearer_token_def split_Bearer by (simp add: py_index_def)



text \<open>What \<open>get_current_user\<close> does once the header has passed the scheme test.\<close>

lemma get_current_user_with_scheme:
  "a \<noteq> [] \<Longrightarrow> has_bearer_scheme a \<Longrightarrow> bearer_token a = r \<Longrightarrow>
   get_current_user L db (Some a) =
     and_then r (\<lambda>token.
       and_then (decode_token L token) (\<lambda>payload.
         let email = py_get payload ''sub'' VNone
         in if \<not> truthy email then Inl (HTTPException 401 ''Invalid token payload'')
            else (case get_documents db ''user'' [(''email'', email)] 1 of
                    [] \<Rightarrow> Inl (HTTPException 401 ''User not found'')
                  | u # _ \<Rightarrow> make_User u)))"
  by (simp add: get_current_user_def)



















text \<open>
  C3. The claim is that resolving a header ends in a user or in one of the five
  authentication failures, whatever the header. The header \<open>Bearer\<close> followed by one
  space passes the scheme test, \<open>split()\<close> then gives the single word \<open>Bearer\<close>, and
  the index 1 raises \<open>IndexError\<close>, which is none of the five.
\<close>

theorem scheme_without_token_raises:
  "get_current_user L db (Some ''Bearer '') = Inl IndexError"
  using get_current_user_with_scheme [OF _ scheme_Bearer token_Bearer, of "[]" L db]
  by (simp add: py_split_def py_index_def and_then_def)

section \<open>The store\<close>

lemma create_document_coll:
  "snd (create_document now oid c data db) c =
     db c @ [\<lparr>doc_id = oid,
              doc_fields = AList.update ''updated_at'' (VFloat now)
                             (AList.update ''created_at'' (VFloat now) data)\<rparr>]"
  by (simp add: create_document_def insert_one_def)

lemma create_document_other:
  "c' \<noteq> c \<Longrightarrow> snd (create_document now oid c data db) c' = db c'"
  by (simp add: create_document_def)

lemma limit1_empty: "get_documents db c f 1 = [] \<longleftrightarrow> filter (matches f) (db c) = []"
  by (cases "filter (matches f) (db c)") (simp_all add: get_documents_def cursor_limit_def)

lemma limit1_head:
  "get_documents db c f 1 = (case filter (matches f) (db c) of [] \<Rightarrow> [] | d # _ \<Rightarrow> [d])"
  by (cases "filter (matches f) (db c)") (simp_all add: get_documents_def cursor_limit_def)

lemma get_documents_matches:
  "d \<in> set (get_documents db c f n) \<Longrightarrow> matches f d"
  by (auto simp: get_documents_def cursor_limit_def dest: in_set_takeD split: if_splits)

section \<open>Allocations\<close>

lemma save_allocation_db:
  "snd (save_allocation now oid payload user db) =
   snd (create_document now oid ''allocation''
         [(''user_email'', VStr (user_email user)), (''sectors'', VMap (sectors payload))] db)"
  by (simp add: save_allocation_def Let_def)

lemma get_after_first_save:
  assumes "get_documents db ''allocation'' [(''user_email'', VStr (user_email user))] 1 = []"
  shows "get_allocation user (snd (save_allocation now oid payload user db)) =
           [(''sectors'', VMap (sectors payload))]"
proof -
  have none:
    "filter (matches [(''user_email'', VStr (user_email user))]) (db ''allocation'') = []"
    using assms unfolding limit1_empty .
  show ?thesis
    unfolding get_allocation_def save_allocation_db limit1_head create_document_coll
    by (simp add: none matches_def py_get_def)
qed

text \<open>Once a user has an allocation record, a later save changes nothing a fetch shows.\<close>

lemma get_after_later_save:
  assumes "get_documents db ''allocation'' [(''user_email'', VStr (user_email user))] 1 \<noteq> []"
  shows "get_allocation user (snd (save_allocation now oid payload user db)) =
           get_allocation user db"
proof -
  obtain d ds where f:
    "filter (matches [(''user_email'', VStr (user_email user))]) (db ''allocation'') = d # ds"
    using assms unfolding limit1_empty
    by (cases "filter (matches [(''user_email'', VStr (user_email user))]) (db ''allocation'')")
      simp_all
  show ?thesis
    unfolding get_allocation_def save_allocation_db limit1_head create_document_coll
    by (simp add: f)
qed

lemma no_allocation_in_empty_db:
  "get_documents empty_db ''allocation'' [(''user_email'', VStr (user_email asha))] 1 = []"
  by (simp add: get_documents_def empty_db_def cursor_limit_def)



text \<open>
  C1. The claim is that after one or more saves the fetch returns the map of the record
  inserted last. The handler comments its save as an upsert that inserts a new version,
  but the fetch takes the first record of a query limited to one, and the store lists a
  user's records oldest first: after a save of health and then a save of education the
  fetch still returns health.
\<close>

theorem second_save_not_returned:
  "get_allocation asha
     (snd (save_allocation 1700000060 ''a2'' \<lparr>sectors = [(''education'', 100)]\<rparr> asha
        (snd (save_allocation 1700000000 ''a1'' \<lparr>sectors = [(''health'', 100)]\<rparr> asha
           empty_db)))) =
   [(''sectors'', VMap [(''health'', 100)])]"
proof -
  let ?db1 =
    "snd (save_allocation 1700000000 ''a1'' \<lparr>sectors = [(''health'', 100)]\<rparr> asha empty_db)"
  have one: "get_allocation asha ?db1 = [(''sectors'', VMap [(''health'', 100)])]"
    using get_after_first_save [OF no_allocation_in_empty_db, of 1700000000 "''a1''"
        "\<lparr>sectors = [(''health'', 100)]\<rparr>"]
    by simp
  have ne: "get_documents ?db1 ''allocation'' [(''user_email'', VStr (user_email asha))] 1 \<noteq> []"
    unfolding save_allocation_db limit1_head create_document_coll
    by (simp add: matches_def empty_db_def)
  show ?thesis using get_after_later_save [OF ne] one by simp
qed

section \<open>Registration\<close>






section \<open>Login\<close>

lemma found_user_email:
  assumes "get_documents db ''user'' [(''email'', VStr e)] 1 = u # us"
  shows "map_of (doc_fields u) ''email'' = Some (VStr e)"
proof -
  have "u \<in> set (get_documents db ''user'' [(''email'', VStr e)] 1)"
    unfolding assms by simp
  then have "matches [(''email'', VStr e)] u" by (rule get_documents_matches)
  then show ?thesis by (simp add: matches_def)
qed

text \<open>
  C6. Login fails with 401 \<open>Invalid credentials\<close> when no user record has the email,
  and with the very same exception when the record is found and the password check
  returns false, so the two cases cannot be told apart. When the check returns true,
  login returns a bearer token that encodes the email as the \<open>sub\<close> claim, with the
  default expiry.
\<close>

theorem login_outcomes:
  "(get_documents db ''user'' [(''email'', VStr (login_email p))] 1 = [] \<longrightarrow>
      login L utcnow p db = Inl (HTTPException 401 ''Invalid credentials'')) \<and>
   (\<forall>u us. get_documents db ''user'' [(''email'', VStr (login_email p))] 1 = u # us \<and>
      verify_password L (login_password p)
        (py_get (doc_fields u) ''password_hash'' (VStr [])) = Inr False \<longrightarrow>
      login L utcnow p db = Inl (HTTPException 401 ''Invalid credentials'')) \<and>
   (\<forall>u us. get_documents db ''user'' [(''email'', VStr (login_email p))] 1 = u # us \<and>
      verify_password L (login_password p)
        (py_get (doc_fields u) ''password_hash'' (VStr [])) = Inr True \<longrightarrow>
      login L utcnow p db =
        Inr \<lparr>access_token =
               jwt_encode L [(''sub'', VStr (login_email p)),
                             (''exp'', VDatetime (utcnow + 24 * 60 * 60 * 1000000))],
             token_type = ''bearer''\<rparr>)"
proof (intro conjI allI impI)
  assume "get_documents db ''user'' [(''email'', VStr (login_email p))] 1 = []"
  then show "login L utcnow p db = Inl (HTTPException 401 ''Invalid credentials'')"
    by (simp add: login_def)
next
  fix u us
  assume "get_documents db ''user'' [(''email'', VStr (login_email p))] 1 = u # us \<and>
      verify_password L (login_password p)
        (py_get (doc_fields u) ''password_hash'' (VStr [])) = Inr False"
  then show "login L utcnow p db = Inl (HTTPException 401 ''Invalid credentials'')"
    by (simp add: login_def)
next
  fix u us
  assume a: "get_documents db ''user'' [(''email'', VStr (login_email p))] 1 = u # us \<and>
      verify_password L (login_password p)
        (py_get (doc_fields u) ''password_hash'' (VStr [])) = Inr True"
  have em: "py_item (doc_fields u) ''email'' = Inr (VStr (login_email p))"
    using found_user_email [OF conjunct1 [OF a]] by (simp add: py_item_def)
  show "login L utcnow p db =
        Inr \<lparr>access_token =
               jwt_encode L [(''sub'', VStr (login_email p)),
                             (''exp'', VDatetime (utcnow + 24 * 60 * 60 * 1000000))],
             token_type = ''bearer''\<rparr>"
    using a em
    by (simp add: login_def create_token_def default_expires_minutes_def timedelta_minutes_def)
qed

theorem login_outcomes_witness:
  "login plain_libs 1700000000000000
     \<lparr>login_email = ''asha@example.com'', login_password = ''s3cret''\<rparr> one_user_db =
   Inr \<lparr>access_token = ''jwt:asha@example.com'', token_type = ''bearer''\<rparr> \<and>
   login plain_libs 1700000000000000
     \<lparr>login_email = ''asha@example.com'', login_password = ''guess''\<rparr> one_user_db =
   Inl (HTTPException 401 ''Invalid credentials'') \<and>
   login plain_libs 1700000000000000
     \<lparr>login_email = ''nobody@example.com'', login_password = ''s3cret''\<rparr> one_user_db =
   Inl (HTTPException 401 ''Invalid credentials'')"
  using login_outcomes [of one_user_db
      "\<lparr>login_email = ''nobody@example.com'', login_password = ''s3cret''\<rparr>" plain_libs
      1700000000000000]
  by (simp add: login_def one_user_db_def empty_db_def get_documents_def cursor_limit_def
      matches_def verify_password_def plain_libs_def context_verify_def bcrypt_idents_def
      py_startswith_def py_get_def py_item_def create_token_def)

section \<open>Password verification\<close>

text \<open>
  C2. The claim is that verification returns a boolean for every password and every hash
  and returns false, rather than raising, on a malformed hash. \<open>verify_password\<close> hands
  both to the library and has no handler of its own, and the library raises on a string
  it cannot identify as a bcrypt hash.
\<close>

theorem verify_raises_on_unknown_hash:
  "verify_password plain_libs ''s3cret'' (VStr ''not-a-hash'') = Inl UnknownHashError"
  by (simp add: verify_password_def plain_libs_def context_verify_def bcrypt_idents_def
      py_startswith_def)

text \<open>
  C2, as the code has it: verification returns the boolean the library's check returns,
  and an exception the library raises on the hash reaches the caller unchanged.
\<close>

theorem verify_password_as_library:
  "(pwd_verify L password hashed = Inr b \<longrightarrow> verify_password L password hashed = Inr b) \<and>
   (pwd_verify L password hashed = Inl e \<longrightarrow> verify_password L password hashed = Inl e)"
  by (simp add: verify_password_def)

theorem verify_password_as_library_witness:
  "verify_password plain_libs ''s3cret'' (VStr ''$2b$s3cret'') = Inr True \<and>
   verify_password plain_libs ''s3cret'' (VStr []) = Inl UnknownHashError"
  using verify_password_as_library [of plain_libs "''s3cret''" "VStr ''$2b$s3cret''" True UnknownHashError]
    verify_password_as_library [of plain_libs "''s3cret''" "VStr []" True UnknownHashError]
  by (simp add: plain_libs_def context_verify_def bcrypt_idents_def py_startswith_def)

section \<open>Token issuance\<close>

text \<open>
  C9. With the default lifetime, the claims handed to the encoder are the given ones with
  \<open>exp\<close> set to the issue time plus 24 hours (in microseconds here); every other claim is
  as given.
\<close>

theorem default_token_expiry:
  "create_token L utcnow data default_expires_minutes =
     jwt_encode L (AList.update ''exp'' (VDatetime (utcnow + 24 * 60 * 60 * 1000000)) data) \<and>
   map_of (AList.update ''exp'' (VDatetime (utcnow + 24 * 60 * 60 * 1000000)) data) ''exp'' =
     Some (VDatetime (utcnow + 24 * 60 * 60 * 1000000)) \<and>
   (\<forall>k. k \<noteq> ''exp'' \<longrightarrow>
      map_of (AList.update ''exp'' (VDatetime (utcnow + 24 * 60 * 60 * 1000000)) data) k =
        map_of data k)"
  by (simp add: create_token_def default_expires_minutes_def timedelta_minutes_def update_conv')

theorem default_token_expiry_witness:
  "create_token plain_libs 1700000000000000 [(''sub'', VStr ''asha@example.com'')]
     default_expires_minutes =
   jwt_encode plain_libs
     [(''sub'', VStr ''asha@example.com''), (''exp'', VDatetime 1700086400000000)]"
  using default_token_expiry [of plain_libs 1700000000000000 "[(''sub'', VStr ''asha@example.com'')]"]
  by simp

section \<open>Gateway orders\<close>

text \<open>
  C8. When either gateway key is unset or empty, the order request fails with 400
  \<open>Razorpay keys not configured\<close>, the gateway is not called, and the store after the
  request is the store before it.
\<close>

theorem order_without_keys:
  assumes "environ ''RAZORPAY_KEY_ID'' = None \<or> environ ''RAZORPAY_KEY_ID'' = Some [] \<or>
           environ ''RAZORPAY_KEY_SECRET'' = None \<or> environ ''RAZORPAY_KEY_SECRET'' = Some []"
  shows "create_razorpay_order environ razorpay now payload user db =
           (Inl (HTTPException 400 ''Razorpay keys not configured''), db)"
proof -
  have "keys_configured (environ ''RAZORPAY_KEY_ID'') (environ ''RAZORPAY_KEY_SECRET'') = None"
    using assms by (auto simp: keys_configured_def split: option.splits)
  then show ?thesis by (simp add: create_razorpay_order_def)
qed

theorem order_without_keys_witness:
  "create_razorpay_order [''RAZORPAY_KEY_ID'' \<mapsto> ''rzp_test_1''] (Inr paying_gateway) 1700000000
     \<lparr>ro_amount = 50000, ro_currency = ''INR'', ro_receipt = None, ro_notes = None\<rparr> asha full_db =
   (Inl (HTTPException 400 ''Razorpay keys not configured''), full_db)"
  using order_without_keys [of "[''RAZORPAY_KEY_ID'' \<mapsto> ''rzp_test_1'']" "Inr paying_gateway"
      1700000000 "\<lparr>ro_amount = 50000, ro_currency = ''INR'', ro_receipt = None, ro_notes = None\<rparr>"
      asha full_db]
  by simp

section \<open>Demo payments and the receipts listing\<close>

lemma digits_of_less: "n < 10 \<Longrightarrow> digits_of n = [digit_char n]"
  by (simp add: digits_of.simps)

lemma digits_of_ge: "10 \<le> n \<Longrightarrow> digits_of n = digits_of (n div 10) @ [digit_char (n mod 10)]"
  by (subst digits_of.simps) simp

lemma digit_char_is_digit: "d < 10 \<Longrightarrow> is_digit (digit_char d)"
proof -
  assume "d < 10"
  then have "d \<in> {0,1,2,3,4,5,6,7,8,9}" by auto
  then show ?thesis by (auto simp: is_digit_def digit_char_def)
qed

lemma digits_of_digits: "digits_of n \<noteq> [] \<and> list_all is_digit (digits_of n)"
proof (induction n rule: digits_of.induct)
  case (1 n)
  show ?case
  proof (cases "n < 10")
    case True
    then show ?thesis by (simp add: digits_of_less digit_char_is_digit)
  next
    case False
    then have "10 \<le> n" by simp
    with 1 False show ?thesis
      by (simp add: digits_of_ge digit_char_is_digit)
  qed
qed

lemma digits_now: "digits_of 1700000000 = ''1700000000''"
  by (simp add: digits_of_less digits_of_ge digit_char_def)

lemma str_int_nonneg: "0 \<le> now \<Longrightarrow> str_int (py_int now) = digits_of (nat \<lfloor>now\<rfloor>)"
  by (simp add: str_int_def py_int_def)

lemma receipt_items_length:
  "receipt_items xs = Inr ys \<Longrightarrow> length ys = length xs"
  by (induction xs arbitrary: ys) (auto simp: and_then_def split: sum.splits)

lemma receipt_items_snoc:
  "receipt_items xs = Inr ys \<Longrightarrow> make_Receipt d = Inr y \<Longrightarrow>
   receipt_items (xs @ [d]) = Inr (ys @ [y])"
  by (induction xs arbitrary: ys) (auto simp: and_then_def split: sum.splits)

lemma receipt_items_map:
  "(\<And>x. make_Receipt (f x) = Inr (g x)) \<Longrightarrow> receipt_items (map f xs) = Inr (map g xs)"
  by (induction xs) (simp_all add: and_then_def)

lemma pay_demo_db:
  "snd (pay_demo now now' oid payload user db) =
   snd (create_document now' oid ''receipt''
     [(''user_email'', VStr (user_email user)),
      (''amount'', VInt (dp_amount payload)),
      (''currency'', VStr ''INR''),
      (''regime'', VStr (dp_regime payload)),
      (''allocation'', VMap (dp_allocation payload)),
      (''payment_method'', VStr ''demo''),
      (''reference'', VStr (''DEMO-'' @ str_int (py_int now)))] db)"
  by (simp add: pay_demo_def Let_def)

lemma pay_demo_receipt:
  "fst (pay_demo now now' oid payload user db) =
     \<lparr>rc_id = None, rc_user_email = user_email user, rc_amount = dp_amount payload,
      rc_currency = ''INR'', rc_regime = dp_regime payload,
      rc_allocation = dp_allocation payload, rc_payment_method = ''demo'',
      rc_reference = Some (''DEMO-'' @ str_int (py_int now))\<rparr>"
  by (simp add: pay_demo_def Let_def)

lemma new_receipt_doc:
  "make_Receipt
     \<lparr>doc_id = oid,
      doc_fields =
        [(''user_email'', VStr e), (''amount'', VInt a), (''currency'', VStr ''INR''),
         (''regime'', VStr rg), (''allocation'', VMap al), (''payment_method'', VStr ''demo''),
         (''reference'', VStr rf), (''created_at'', VFloat t), (''updated_at'', VFloat t)]\<rparr> =
   Inr \<lparr>rc_id = Some oid, rc_user_email = e, rc_amount = a, rc_currency = ''INR'',
        rc_regime = rg, rc_allocation = al, rc_payment_method = ''demo'',
        rc_reference = Some rf\<rparr>"
  by (simp add: make_Receipt_def and_then_def py_item_def py_get_def as_str_def as_int_def
      as_map_def as_opt_str_def)

lemma new_receipt_matches:
  "matches [(''user_email'', VStr e)]
     \<lparr>doc_id = oid,
      doc_fields =
        [(''user_email'', VStr e), (''amount'', VInt a), (''currency'', VStr ''INR''),
         (''regime'', VStr rg), (''allocation'', VMap al), (''payment_method'', VStr ''demo''),
         (''reference'', VStr rf), (''created_at'', VFloat t), (''updated_at'', VFloat t)]\<rparr>"
  by (simp add: matches_def)

lemma listing_after_payment:
  assumes l: "list_receipts user db = Inr items" and n: "length items < 100"
  shows "list_receipts user (snd (pay_demo now now' oid payload user db)) =
     Inr (items @ [(fst (pay_demo now now' oid payload user db))\<lparr>rc_id := Some oid\<rparr>])"
proof -
  let ?f = "[(''user_email'', VStr (user_email user))]"
  let ?F = "filter (matches ?f) (db ''receipt'')"
  have l': "receipt_items (take 100 ?F) = Inr items"
    using l by (simp add: list_receipts_def get_documents_def cursor_limit_def)
  have "length (take 100 ?F) < 100"
    using receipt_items_length [OF l'] n by simp
  then have short: "length ?F < 100" by simp
  then have t: "take 100 ?F = ?F" by simp
  have items: "receipt_items ?F = Inr items" using l' t by simp
  show ?thesis
    unfolding list_receipts_def get_documents_def pay_demo_db create_document_coll
      pay_demo_receipt
    using short
    by (simp add: cursor_limit_def new_receipt_matches
        receipt_items_snoc [OF items new_receipt_doc])
qed

lemma floor_now: "nat \<lfloor>1700000000 :: real\<rfloor> = 1700000000"
  by simp

lemma old_receipt_listed: "make_Receipt (old_receipt i) = Inr (listed_old i)"
  by (simp add: old_receipt_def listed_old_def make_Receipt_def and_then_def py_item_def
      py_get_def as_str_def as_int_def as_map_def as_opt_str_def)

lemma old_receipt_matches: "matches [(''user_email'', VStr ''asha@example.com'')] (old_receipt i)"
  by (simp add: old_receipt_def matches_def)

lemma full_db_receipts:
  "filter (matches [(''user_email'', VStr ''asha@example.com'')]) (full_db ''receipt'') =
     map old_receipt [0..<100]"
  by (simp add: full_db_def old_receipt_matches)

lemma full_listing_unchanged:
  "list_receipts asha (snd (pay_demo 1700000000 1700000001 ''r100'' demo_payment asha full_db)) =
     Inr (map listed_old [0..<100])"
proof -
  have e: "user_email asha = ''asha@example.com''" by (simp add: asha_def)
  show ?thesis
    unfolding list_receipts_def get_documents_def pay_demo_db create_document_coll e
    by (simp add: cursor_limit_def full_db_receipts new_receipt_matches
        receipt_items_map [of old_receipt listed_old, OF old_receipt_listed])
qed

text \<open>
  C7. The claim is that every demo payment returns the receipt described and that the
  receipt then appears in the user's listing. The listing is a query limited to 100
  records, and the store lists a user's records oldest first: for a user who holds a
  hundred receipts the new receipt is stored but not listed.
\<close>

theorem hundred_and_first_receipt_unlisted:
  "rc_reference (fst (pay_demo 1700000000 1700000001 ''r100'' demo_payment asha full_db)) =
     Some ''DEMO-1700000000'' \<and>
   \<not> listed ''DEMO-1700000000''
       (list_receipts asha
          (snd (pay_demo 1700000000 1700000001 ''r100'' demo_payment asha full_db)))"
  unfolding full_listing_unchanged
  by (simp add: pay_demo_receipt str_int_nonneg floor_now digits_now listed_def listed_old_def
      image_iff)

text \<open>
  C7, as the code has it. With the clock at or after the epoch, a demo payment returns a
  receipt with payment method \<open>demo\<close>, currency \<open>INR\<close>, the amount, regime and
  allocation of the request and a reference \<open>DEMO-\<close> followed by decimal digits. The
  receipt is stored, and when the user's listing showed fewer than 100 receipts before,
  the listing afterwards is the earlier one followed by this receipt under its new id.
\<close>

theorem demo_payment_receipt:
  assumes "0 \<le> now" and "list_receipts user db = Inr items" and "length items < 100"
  shows "fst (pay_demo now now' oid payload user db) =
     \<lparr>rc_id = None, rc_user_email = user_email user, rc_amount = dp_amount payload,
      rc_currency = ''INR'', rc_regime = dp_regime payload,
      rc_allocation = dp_allocation payload, rc_payment_method = ''demo'',
      rc_reference = Some (''DEMO-'' @ digits_of (nat \<lfloor>now\<rfloor>))\<rparr> \<and>
     digits_of (nat \<lfloor>now\<rfloor>) \<noteq> [] \<and> list_all is_digit (digits_of (nat \<lfloor>now\<rfloor>)) \<and>
     list_receipts user (snd (pay_demo now now' oid payload user db)) =
       Inr (items @ [(fst (pay_demo now now' oid payload user db))\<lparr>rc_id := Some oid\<rparr>])"
  using assms listing_after_payment [OF assms(2,3)] digits_of_digits [of "nat \<lfloor>now\<rfloor>"]
  by (simp add: pay_demo_receipt str_int_nonneg)

theorem demo_payment_receipt_witness:
  "fst (pay_demo 1700000000 1700000001 ''r1'' demo_payment asha empty_db) =
     \<lparr>rc_id = None, rc_user_email = ''asha@example.com'', rc_amount = 500,
      rc_currency = ''INR'', rc_regime = ''new'', rc_allocation = [(''health'', 100)],
      rc_payment_method = ''demo'', rc_reference = Some ''DEMO-1700000000''\<rparr> \<and>
   list_receipts asha (snd (pay_demo 1700000000 1700000001 ''r1'' demo_payment asha empty_db)) =
     Inr [\<lparr>rc_id = Some ''r1'', rc_user_email = ''asha@example.com'', rc_amount = 500,
           rc_currency = ''INR'', rc_regime = ''new'', rc_allocation = [(''health'', 100)],
           rc_payment_method = ''demo'', rc_reference = Some ''DEMO-1700000000''\<rparr>]"
proof -
  have h1: "(0::real) \<le> 1700000000" by simp
  have h2: "list_receipts asha empty_db = Inr []"
    by (simp add: list_receipts_def get_documents_def empty_db_def cursor_limit_def)
  have h3: "length ([] :: Receipt list) < 100" by simp
  show ?thesis
    using demo_payment_receipt [OF h1 h2 h3, of 1700000001 "''r1''" demo_payment]
    by (simp add: floor_now digits_now asha_def demo_payment_def)
qed

end
